theory Spec2Isabelle
  imports Complex_Main "HOL-Library.Sublist"
begin

section \<open>Balansea: the rebalancing decision engine\<close>

text \<open>
  A shallow embedding of the rebalancing code of the Balansea backend: the swap planner
  \<open>calculateRebalanceSwaps\<close> (rebalanceUtils.ts), the planner of \<open>RebalanceService\<close>
  (\<open>generateSwapOperations\<close>), the two deviation calculators, the two swap executors, the
  two monitoring cycles and the allocation validation of portfolio creation and update.

  Numbers. A JavaScript \<open>number\<close> is an IEEE double; it is modelled here as an exact
  \<^typ>\<open>real\<close>, so the rounding error of floating-point arithmetic is not part of the
  model. The values that a double has and a real has not are written out where the code
  can meet them: a division by a zero price gives \<open>Infinity\<close> or \<open>NaN\<close>, which
  \<open>parseUnits\<close> refuses. Every concrete input below is a short dyadic or decimal value
  on which the double computation takes the same branches.
\<close>

subsection \<open>Data of the planner (rebalanceUtils.ts, balanceUtils.ts)\<close>

record AssetInfo =
  symbol :: string
  address :: string
  decimals :: nat

text \<open>
  \<open>PortfolioAllocation\<close> as balanceUtils declares it, and its extension by the field
  \<open>currentPriceUSD\<close> that \<open>calculateRebalanceSwaps\<close> reads from every allocation.
\<close>

record PortfolioAllocation =
  asset :: AssetInfo
  targetPercentage :: real
  currentPercentage :: real
  currentValueUSD :: real
  currentBalance :: string
  gap :: real
  needsRebalance :: bool

record PricedAllocation = PortfolioAllocation +
  currentPriceUSD :: real

text \<open>
  An element of \<open>targetValuesUSD\<close>, and of \<open>assetsToBuy\<close> and \<open>assetsToSell\<close> once the
  field \<open>difference\<close> has been added by the spread \<open>{ ...asset, difference }\<close>.
\<close>

record TargetValue =
  tv_symbol :: string
  tv_targetValueUSD :: real
  tv_currentValueUSD :: real
  tv_gap :: real
  tv_asset :: AssetInfo

record TargetDiff = TargetValue +
  difference :: real

record SwapOperation =
  tokenInSymbol :: string
  tokenOutSymbol :: string
  tokenInAddress :: string
  tokenOutAddress :: string
  tokenInDecimals :: nat
  tokenOutDecimals :: nat
  amountInUSD :: real
  amountInTokens :: int
  amountOutTokens :: int
  swap_gap :: real

record RebalancePlan =
  swaps :: "SwapOperation list"
  totalValueUSD :: real
  isRebalanceNeeded :: bool

text \<open>The exceptions the planner can raise.\<close>

datatype planner_error =
  ReduceOfEmptyArray      \<comment> \<open>TypeError: Reduce of empty array with no initial value\<close>
| ToFixedRangeError       \<comment> \<open>RangeError: toFixed() digits argument must be between 0 and 100\<close>
| InvalidDecimalValue     \<comment> \<open>parseUnits: invalid decimal value\<close>

subsection \<open>Token amounts: \<open>toFixed\<close> followed by \<open>parseUnits\<close>\<close>

text \<open>
  \<open>x.toFixed(d)\<close> prints the integer \<open>n\<close> for which \<open>n / 10^d - x\<close> is closest to zero,
  the larger \<open>n\<close> on a tie, with the sign of a negative \<open>x\<close> put back in front;
  \<open>parseUnits(s, d)\<close> reads the \<open>d\<close> decimals of that string back as the integer \<open>n\<close>.
\<close>

definition toFixed_units :: "real \<Rightarrow> nat \<Rightarrow> int" where
  "toFixed_units x d =
     (if x < 0 then - \<lfloor>(- x) * 10 ^ d + 1 / 2\<rfloor> else \<lfloor>x * 10 ^ d + 1 / 2\<rfloor>)"

text \<open>
  \<open>parseUnits((usd / price).toFixed(d), d)\<close>. A zero price makes the quotient
  \<open>Infinity\<close> or \<open>NaN\<close>, and a quotient of \<open>10^21\<close> or more is printed in exponent
  notation: \<open>parseUnits\<close> throws on all three strings. \<open>toFixed\<close> itself throws for
  more than 100 digits.
\<close>

definition parseUnits_toFixed :: "real \<Rightarrow> real \<Rightarrow> nat \<Rightarrow> planner_error + int" where
  "parseUnits_toFixed usd price d =
     (if 100 < d then Inl ToFixedRangeError
      else if price = 0 then Inl InvalidDecimalValue
      else if 10 ^ 21 \<le> \<bar>usd / price\<bar> then Inl InvalidDecimalValue
      else Inr (toFixed_units (usd / price) d))"


subsection \<open>\<open>calculateRebalanceSwaps\<close>\<close>

text \<open>\<open>allocations.map(...)\<close> building \<open>targetValuesUSD\<close>.\<close>

definition targetValue :: "real \<Rightarrow> PricedAllocation \<Rightarrow> TargetValue" where
  "targetValue totalValue alloc =
     \<lparr> tv_symbol = symbol (asset alloc),
       tv_targetValueUSD = totalValue * targetPercentage alloc,
       tv_currentValueUSD = currentValueUSD alloc,
       tv_gap = gap alloc,
       tv_asset = asset alloc \<rparr>"

definition with_difference :: "TargetValue \<Rightarrow> real \<Rightarrow> TargetDiff" where
  "with_difference a d = TargetValue.extend a (TargetDiff.fields d)"

text \<open>The loop that separates the assets to buy from the assets to sell.\<close>

fun separate :: "TargetValue list \<Rightarrow> TargetDiff list \<Rightarrow> TargetDiff list
    \<Rightarrow> TargetDiff list \<times> TargetDiff list" where
  "separate [] assetsToBuy assetsToSell = (assetsToBuy, assetsToSell)"
| "separate (a # as) assetsToBuy assetsToSell =
     (let diff = tv_targetValueUSD a - tv_currentValueUSD a in
      if 0 < diff then separate as (assetsToBuy @ [with_difference a diff]) assetsToSell
      else if diff < 0 then separate as assetsToBuy (assetsToSell @ [with_difference a \<bar>diff\<bar>])
      else separate as assetsToBuy assetsToSell)"

text \<open>
  \<open>assetsToSell.reduce((max, asset) => asset.difference > max.difference ? asset : max)\<close>
  without an initial value: the first element starts as \<open>max\<close>, a later one replaces it
  only when strictly larger, and an empty array raises a TypeError. The result is the
  position of the chosen element, since the loop below mutates that element in place.
\<close>

fun reduce_max_from :: "real \<Rightarrow> nat \<Rightarrow> nat \<Rightarrow> TargetDiff list \<Rightarrow> nat" where
  "reduce_max_from mx mi i [] = mi"
| "reduce_max_from mx mi i (a # as) =
     (if mx < difference a then reduce_max_from (difference a) i (Suc i) as
      else reduce_max_from mx mi (Suc i) as)"

definition reduce_max :: "TargetDiff list \<Rightarrow> nat option" where
  "reduce_max assetsToSell =
     (case assetsToSell of
        [] \<Rightarrow> None
      | a # as \<Rightarrow> Some (reduce_max_from (difference a) 0 1 as))"

text \<open>\<open>allocations.find((a) => a.asset.symbol === s)\<close>.\<close>

definition find_allocation :: "PricedAllocation list \<Rightarrow> string \<Rightarrow> PricedAllocation option" where
  "find_allocation allocations s = find (\<lambda>a. symbol (asset a) = s) allocations"

text \<open>
  The body of the loop over \<open>assetsToBuy\<close>, for one \<open>buyAsset\<close>. Its state is the
  array \<open>assetsToSell\<close>, whose chosen element loses the traded amount
  (\<open>sellAsset.difference -= sellAmountUSD\<close>), and the array \<open>swaps\<close>, which grows by
  \<open>push\<close>. The decrement of \<open>buyAsset.difference\<close> is never read again.
\<close>

definition buy_step :: "PricedAllocation list \<Rightarrow> TargetDiff list \<Rightarrow> TargetDiff
    \<Rightarrow> SwapOperation list \<Rightarrow> planner_error + (TargetDiff list \<times> SwapOperation list)" where
  "buy_step allocations assetsToSell buyAsset swps =
     (case reduce_max assetsToSell of
        None \<Rightarrow> Inl ReduceOfEmptyArray
      | Some i \<Rightarrow>
          (let sellAsset = assetsToSell ! i in
           if 1 / 100 < difference sellAsset then
             (let sellAmountUSD = min (difference sellAsset) (difference buyAsset) in
              case find_allocation allocations (tv_symbol sellAsset) of
                None \<Rightarrow> Inr (assetsToSell, swps)
              | Some sellAssetAllocation \<Rightarrow>
                 (case find_allocation allocations (tv_symbol buyAsset) of
                    None \<Rightarrow> Inr (assetsToSell, swps)
                  | Some buyAssetAllocation \<Rightarrow>
                     (case parseUnits_toFixed sellAmountUSD (currentPriceUSD sellAssetAllocation)
                             (decimals (tv_asset sellAsset)) of
                        Inl e \<Rightarrow> Inl e
                      | Inr amountIn \<Rightarrow>
                         (case parseUnits_toFixed sellAmountUSD (currentPriceUSD buyAssetAllocation)
                                 (decimals (tv_asset buyAsset)) of
                            Inl e \<Rightarrow> Inl e
                          | Inr amountOut \<Rightarrow>
                              Inr (assetsToSell[i := sellAsset\<lparr>difference :=
                                                     difference sellAsset - sellAmountUSD\<rparr>],
                                   swps @
                                   [\<lparr> tokenInSymbol = tv_symbol sellAsset,
                                      tokenOutSymbol = tv_symbol buyAsset,
                                      tokenInAddress = address (tv_asset sellAsset),
                                      tokenOutAddress = address (tv_asset buyAsset),
                                      tokenInDecimals = decimals (tv_asset sellAsset),
                                      tokenOutDecimals = decimals (tv_asset buyAsset),
                                      amountInUSD = sellAmountUSD,
                                      amountInTokens = amountIn,
                                      amountOutTokens = amountOut,
                                      swap_gap = \<bar>tv_gap sellAsset\<bar> + \<bar>tv_gap buyAsset\<bar> \<rparr>])))))
           else Inr (assetsToSell, swps)))"

text \<open>
  The loop \<open>for (const buyAsset of assetsToBuy)\<close>; an exception in the body ends it.
  The result carries the final \<open>assetsToSell\<close> next to the swaps.
\<close>

fun buy_loop :: "PricedAllocation list \<Rightarrow> TargetDiff list \<Rightarrow> TargetDiff list
    \<Rightarrow> SwapOperation list \<Rightarrow> planner_error + (TargetDiff list \<times> SwapOperation list)" where
  "buy_loop allocations assetsToSell [] swps = Inr (assetsToSell, swps)"
| "buy_loop allocations assetsToSell (buyAsset # rest) swps =
     (case buy_step allocations assetsToSell buyAsset swps of
        Inl e \<Rightarrow> Inl e
      | Inr (assetsToSell', swps') \<Rightarrow> buy_loop allocations assetsToSell' rest swps')"

text \<open>
  \<open>swaps.sort((a, b) => b.gap - a.gap)\<close>: a stable sort, largest \<open>gap\<close> first.
\<close>

definition sort_swaps :: "SwapOperation list \<Rightarrow> SwapOperation list" where
  "sort_swaps swps = sort_key (\<lambda>s. - swap_gap s) swps"

text \<open>\<open>allocations.reduce((sum, alloc) => sum + alloc.currentValueUSD, 0)\<close>.\<close>

definition sumCurrentValueUSD :: "PricedAllocation list \<Rightarrow> real" where
  "sumCurrentValueUSD allocations = foldl (\<lambda>acc alloc. acc + currentValueUSD alloc) 0 allocations"

definition calculateRebalanceSwaps :: "PricedAllocation list \<Rightarrow> real
    \<Rightarrow> planner_error + RebalancePlan" where
  "calculateRebalanceSwaps allocations tolerance =
     (let totalValue = sumCurrentValueUSD allocations in
      if totalValue = 0 then
        Inr \<lparr> swaps = [], totalValueUSD = 0, isRebalanceNeeded = False \<rparr>
      else if filter needsRebalance allocations = [] then
        Inr \<lparr> swaps = [], totalValueUSD = totalValue, isRebalanceNeeded = False \<rparr>
      else
        (let (assetsToBuy, assetsToSell) = separate (map (targetValue totalValue) allocations) [] [] in
         case buy_loop allocations assetsToSell assetsToBuy [] of
           Inl e \<Rightarrow> Inl e
         | Inr (sells, swps) \<Rightarrow>
             Inr \<lparr> swaps = sort_swaps swps, totalValueUSD = totalValue,
                   isRebalanceNeeded = (0 < length (sort_swaps swps)) \<rparr>))"


subsection \<open>Notions used to state the planner's properties\<close>

text \<open>The gap in USD of an element of \<open>targetValuesUSD\<close>: target value minus current value.\<close>

definition tv_diff :: "TargetValue \<Rightarrow> real" where
  "tv_diff a = tv_targetValueUSD a - tv_currentValueUSD a"

text \<open>The arrays \<open>assetsToBuy\<close> and \<open>assetsToSell\<close> as the planner builds them.\<close>

definition assetsToBuy :: "PricedAllocation list \<Rightarrow> TargetDiff list" where
  "assetsToBuy allocations =
     fst (separate (map (targetValue (sumCurrentValueUSD allocations)) allocations) [] [])"

definition assetsToSell :: "PricedAllocation list \<Rightarrow> TargetDiff list" where
  "assetsToSell allocations =
     snd (separate (map (targetValue (sumCurrentValueUSD allocations)) allocations) [] [])"


definition sum_to :: "string \<Rightarrow> SwapOperation list \<Rightarrow> real" where
  "sum_to y swps = (\<Sum>s\<leftarrow>swps. if tokenOutSymbol s = y then amountInUSD s else 0)"

definition remaining :: "string \<Rightarrow> TargetDiff list \<Rightarrow> real" where
  "remaining x entries = (\<Sum>e\<leftarrow>entries. if tv_symbol e = x then difference e else 0)"


definition deficit :: "PricedAllocation list \<Rightarrow> string \<Rightarrow> real" where
  "deficit allocations y =
     (\<Sum>a\<leftarrow>allocations. if symbol (asset a) = y
        then max 0 (sumCurrentValueUSD allocations * targetPercentage a - currentValueUSD a)
        else 0)"

text \<open>
  An allocation as \<open>calculateCurrentAllocations\<close> fills it for a portfolio worth
  \<open>totalValue\<close> USD: symbol, target fraction, current USD value, price and decimals.
\<close>

definition mkAllocation :: "real \<Rightarrow> string \<Rightarrow> real \<Rightarrow> real \<Rightarrow> real \<Rightarrow> nat \<Rightarrow> PricedAllocation" where
  "mkAllocation totalValue s tgt cur price d =
     \<lparr> asset = \<lparr> symbol = s, address = s, decimals = d \<rparr>,
       targetPercentage = tgt,
       currentPercentage = cur / totalValue,
       currentValueUSD = cur,
       currentBalance = ''0'',
       gap = cur / totalValue - tgt,
       needsRebalance = (1 / 1000 < \<bar>cur / totalValue - tgt\<bar>),
       currentPriceUSD = price \<rparr>"

text \<open>
  A portfolio of 1000 USD: A holds 460 for a target of 400, B 100 for 130, C 100 for 170,
  D 340 for 300. Every price is 1 USD and every token has 2 decimals.
\<close>

definition portfolio_ABCD :: "PricedAllocation list" where
  "portfolio_ABCD =
     [mkAllocation 1000 ''A'' (2 / 5) 460 1 2, mkAllocation 1000 ''B'' (13 / 100) 100 1 2,
      mkAllocation 1000 ''C'' (17 / 100) 100 1 2, mkAllocation 1000 ''D'' (3 / 10) 340 1 2]"

subsection \<open>\<open>RebalanceService\<close>: deviations and the pairwise planner\<close>

record DeviationResult =
  assetSymbol :: string
  d_targetPercentage :: real
  d_currentPercentage :: real
  deviation :: real
  d_needsRebalance :: bool
  d_currentValueUSD :: real
  d_targetValueUSD :: real

text \<open>
  \<open>SwapOperation\<close> of the service. \<open>amount\<close> is a quotient of two numbers: \<open>None\<close>
  stands for the \<open>Infinity\<close> that a zero divisor gives. The accented letters of the
  text in \<open>reason\<close> are written without their accents.
\<close>

record ServiceSwap =
  fromAsset :: string
  toAsset :: string
  amount :: "real option"
  expectedAmount :: real
  reason :: string


text \<open>
  The portfolio document (\<open>p_pkpPublicKey\<close> is \<open>pkpInfo.publicKey\<close>), and the allocation
  documents and balances that \<open>calculateDeviations\<close> reads.
\<close>

record PortfolioDoc =
  p_isActive :: bool
  p_ethAddress :: string
  p_pkpPublicKey :: "string option"
  p_rebalanceType :: string
  rebalanceThreshold :: "real option"










text \<open>
  Modelled from the spec: \<open>RebalanceService.createStrictRebalancePlan\<close>, which the
  monitoring job calls for a \<open>strict_periodic\<close> portfolio and which is not among the
  sources. The spec: the two policies share one mechanism and differ only in the input
  filter; under \<open>threshold\<close> only the assets with \<open>needsRebalance = true\<close> participate,
  under \<open>strict_periodic\<close> every asset with nonzero deviation participates, with no gating
  by a tolerance.
\<close>

definition strict_filter :: "DeviationResult \<Rightarrow> DeviationResult" where
  "strict_filter d = d\<lparr>d_needsRebalance := (deviation d \<noteq> 0)\<rparr>"



definition service_sum_to :: "string \<Rightarrow> ServiceSwap list \<Rightarrow> real" where
  "service_sum_to y swps = (\<Sum>s\<leftarrow>swps. if toAsset s = y then expectedAmount s else 0)"



text \<open>
  The plan of \<open>calculateRebalanceSwaps\<close> for that portfolio: 40 USD from D to C, then
  30 USD from A to B.
\<close>

definition plan_ABCD :: RebalancePlan where
  "plan_ABCD =
     \<lparr> swaps =
         [\<lparr> tokenInSymbol = ''D'', tokenOutSymbol = ''C'',
            tokenInAddress = ''D'', tokenOutAddress = ''C'',
            tokenInDecimals = 2, tokenOutDecimals = 2,
            amountInUSD = 40, amountInTokens = 4000, amountOutTokens = 4000,
            swap_gap = 11 / 100 \<rparr>,
          \<lparr> tokenInSymbol = ''A'', tokenOutSymbol = ''B'',
            tokenInAddress = ''A'', tokenOutAddress = ''B'',
            tokenInDecimals = 2, tokenOutDecimals = 2,
            amountInUSD = 30, amountInTokens = 3000, amountOutTokens = 3000,
            swap_gap = 9 / 100 \<rparr>],
       totalValueUSD = 1000,
       isRebalanceNeeded = True \<rparr>"

text \<open>
  An allocation whose balance was not found, as \<open>calculateCurrentAllocations\<close> fills it
  ("using zero"): no current value, \<open>gap\<close> the target fraction, \<open>needsRebalance\<close> true.
\<close>

definition mkMissingBalance :: "string \<Rightarrow> real \<Rightarrow> real \<Rightarrow> nat \<Rightarrow> PricedAllocation" where
  "mkMissingBalance s tgt price d =
     \<lparr> asset = \<lparr> symbol = s, address = s, decimals = d \<rparr>,
       targetPercentage = tgt,
       currentPercentage = 0,
       currentValueUSD = 0,
       currentBalance = ''0'',
       gap = tgt,
       needsRebalance = True,
       currentPriceUSD = price \<rparr>"

text \<open>
  A portfolio with the targets 100% for A and \<open>1e-20\<close> for B. In the double arithmetic of
  the program \<open>1 + 1e-20\<close> is 1, so that the schema, the service and the \<open>pre('save')\<close>
  hook of the allocations all accept these targets. A holds the whole value of 100 USD
  and the balance of B was not found. B has a deficit of \<open>1e-18\<close> USD and no asset has a
  surplus.
\<close>

definition portfolio_no_surplus :: "PricedAllocation list" where
  "portfolio_no_surplus =
     [mkAllocation 100 ''A'' 1 100 1 6, mkMissingBalance ''B'' (1 / 10 ^ 20) 1 6]"

text \<open>
  A portfolio of 1000 USD, half WBTC and half USDC by target: WBTC (price 60000 USD, 8
  decimals) holds 600 USD and USDC (price 1 USD, 6 decimals) holds 400 USD.
\<close>

definition portfolio_WBTC_USDC :: "PricedAllocation list" where
  "portfolio_WBTC_USDC =
     [mkAllocation 1000 ''WBTC'' (1 / 2) 600 60000 8, mkAllocation 1000 ''USDC'' (1 / 2) 400 1 6]"



text \<open>
  The array \<open>assetsToSell\<close> at the moment the loop reaches the \<open>k\<close>-th asset to buy
  (after \<open>k\<close> iterations), and the property of being the element that the \<open>reduce\<close>
  picks: the largest \<open>difference\<close>, the first of its size.
\<close>

definition sell_state :: "PricedAllocation list \<Rightarrow> nat \<Rightarrow> TargetDiff list" where
  "sell_state allocations k =
     (case buy_loop allocations (assetsToSell allocations) (take k (assetsToBuy allocations)) [] of
        Inl e \<Rightarrow> []
      | Inr (S, A) \<Rightarrow> S)"

definition largest_remaining :: "TargetDiff list \<Rightarrow> nat \<Rightarrow> bool" where
  "largest_remaining S i \<longleftrightarrow>
     i < length S \<and> (\<forall>j<length S. difference (S ! j) \<le> difference (S ! i)) \<and>
     (\<forall>j<i. difference (S ! j) < difference (S ! i))"

subsection \<open>The matching that the specification describes\<close>






subsection \<open>\<open>calculateCurrentAllocations\<close> (balanceUtils)\<close>










text \<open>
  The USD that \<open>generateSwapOperations\<close> sells of an excess asset in one swap, and its
  two filters on the sorted deviations.
\<close>

definition amountToSell :: "DeviationResult \<Rightarrow> real" where
  "amountToSell e = (d_currentValueUSD e - d_targetValueUSD e) / 2"

definition is_excess :: "DeviationResult \<Rightarrow> bool" where
  "is_excess d \<longleftrightarrow> d_targetPercentage d < d_currentPercentage d"

definition is_deficit :: "DeviationResult \<Rightarrow> bool" where
  "is_deficit d \<longleftrightarrow> d_currentPercentage d < d_targetPercentage d"

subsection \<open>The swap executor of the monitoring job (swapUtils.ts)\<close>

text \<open>
  The Vincent ability clients and the chain are outside the code: what a call to them
  returns is given by a world. \<open>handleTokenApproval\<close> throws a message or returns the
  hash of an approval transaction, if one was needed; \<open>executeUniswapSwap\<close> throws a
  message or returns the hash of the swap transaction; \<open>confirmed\<close> tells whether the
  receipt of a transaction shows up with status 1 within the wait of 60 seconds.
\<close>

record SwapWorld =
  handleTokenApproval :: "SwapOperation \<Rightarrow> string + string option"
  executeUniswapSwap :: "SwapOperation \<Rightarrow> string + string"
  confirmed :: "string \<Rightarrow> bool"

text \<open>The calls that reach the outside, in the order they are made.\<close>

datatype call =
  Approval SwapOperation
| Submit SwapOperation
| Wait string

text \<open>The decimal digits of a number, as a template literal prints \<open>i + 1\<close>.\<close>

definition digit :: "nat \<Rightarrow> char" where
  "digit d = ''0123456789'' ! d"

fun decimal_digits :: "nat \<Rightarrow> string \<Rightarrow> string" where
  "decimal_digits n acc =
     (if n < 10 then digit n # acc else decimal_digits (n div 10) (digit (n mod 10) # acc))"

definition show_nat :: "nat \<Rightarrow> string" where
  "show_nat n = decimal_digits n []"

text \<open>
  \<open>waitForTransaction\<close>: it returns when the receipt shows status 1 and throws when the
  60 seconds have passed.
\<close>

definition waitForTransaction :: "SwapWorld \<Rightarrow> string \<Rightarrow> string + unit" where
  "waitForTransaction world txHash =
     (if confirmed world txHash then Inr ()
      else Inl (''Transaction '' @ txHash @ '' not confirmed within 60000ms''))"

definition swap_failed :: "SwapOperation \<Rightarrow> string \<Rightarrow> string" where
  "swap_failed swap errorMessage =
     ''Failed to execute swap '' @ tokenInSymbol swap @ '' -> '' @ tokenOutSymbol swap
       @ '': '' @ errorMessage"

text \<open>
  \<open>executeSwap\<close>: the approval, the wait for it when there is an approval hash (an empty
  string is falsy), then the swap. Any exception is rethrown with the swap's symbols.
  The result carries the calls made.
\<close>

definition executeSwap :: "SwapWorld \<Rightarrow> SwapOperation \<Rightarrow> call list \<times> (string + string)" where
  "executeSwap world swap =
     (case handleTokenApproval world swap of
        Inl e \<Rightarrow> ([Approval swap], Inl (swap_failed swap e))
      | Inr approvalHash \<Rightarrow>
          (let waited =
                 (case approvalHash of
                    None \<Rightarrow> ([], Inr ())
                  | Some h \<Rightarrow> if h = [] then ([], Inr ())
                              else ([Wait h], waitForTransaction world h))
           in case snd waited of
                Inl e \<Rightarrow> (Approval swap # fst waited, Inl (swap_failed swap e))
              | Inr u \<Rightarrow>
                  (case executeUniswapSwap world swap of
                     Inl e \<Rightarrow> (Approval swap # fst waited @ [Submit swap], Inl (swap_failed swap e))
                   | Inr swapHash \<Rightarrow> (Approval swap # fst waited @ [Submit swap], Inr swapHash))))"

definition rebalancing_stopped :: "nat \<Rightarrow> string \<Rightarrow> string" where
  "rebalancing_stopped n errorMessage =
     ''Rebalancing stopped at swap '' @ show_nat n @ '': '' @ errorMessage"

text \<open>
  The loop of \<open>executeRebalanceSwaps\<close> from index \<open>i\<close>: the hash of a swap is pushed,
  then its confirmation is awaited; the first exception ends the loop and is rethrown
  with the number \<open>i + 1\<close> of the swap, and the hashes collected so far are dropped with
  the local array.
\<close>

fun swaps_loop :: "SwapWorld \<Rightarrow> nat \<Rightarrow> SwapOperation list \<Rightarrow> string list \<Rightarrow> call list
    \<Rightarrow> call list \<times> (string + string list)" where
  "swaps_loop world i [] txHashes trace = (trace, Inr txHashes)"
| "swaps_loop world i (swap # rest) txHashes trace =
     (case executeSwap world swap of
        (calls, Inl e) \<Rightarrow> (trace @ calls, Inl (rebalancing_stopped (i + 1) e))
      | (calls, Inr txHash) \<Rightarrow>
          (case waitForTransaction world txHash of
             Inl e \<Rightarrow> (trace @ calls @ [Wait txHash], Inl (rebalancing_stopped (i + 1) e))
           | Inr u \<Rightarrow>
               swaps_loop world (i + 1) rest (txHashes @ [txHash])
                 (trace @ calls @ [Wait txHash])))"

definition executeRebalanceSwaps :: "SwapWorld \<Rightarrow> PortfolioDoc option \<Rightarrow> string
    \<Rightarrow> SwapOperation list \<Rightarrow> call list \<times> (string + string list)" where
  "executeRebalanceSwaps world portfolio portfolioId swps =
     (case portfolio of
        None \<Rightarrow> ([], Inl (''Portfolio '' @ portfolioId @ '' not found''))
      | Some p \<Rightarrow>
          if p_ethAddress p = [] \<or> p_pkpPublicKey p = None \<or> p_pkpPublicKey p = Some []
          then ([], Inl (''Portfolio '' @ portfolioId @ '' missing ethAddress or pkpInfo.publicKey''))
          else swaps_loop world 0 swps [] [])"

text \<open>
  What one swap comes to in the loop: the hash of its confirmed transaction, or the
  message of the exception that \<open>executeSwap\<close> or the wait for its confirmation threw;
  and the calls it makes.
\<close>

definition swap_result :: "SwapWorld \<Rightarrow> SwapOperation \<Rightarrow> string + string" where
  "swap_result world swap =
     (case snd (executeSwap world swap) of
        Inl e \<Rightarrow> Inl e
      | Inr txHash \<Rightarrow>
          (case waitForTransaction world txHash of
             Inl e \<Rightarrow> Inl e
           | Inr u \<Rightarrow> Inr txHash))"

definition swap_calls :: "SwapWorld \<Rightarrow> SwapOperation \<Rightarrow> call list" where
  "swap_calls world swap =
     (case snd (executeSwap world swap) of
        Inl e \<Rightarrow> fst (executeSwap world swap)
      | Inr txHash \<Rightarrow> fst (executeSwap world swap) @ [Wait txHash])"

subsection \<open>The swap executor of the service job (\<open>DynamicSwapService\<close>)\<close>

record DynamicSwap =
  ds_fromAsset :: string
  ds_toAsset :: string
  ds_amount :: "real option"
  ds_recipient :: string

text \<open>
  \<open>SwapResult\<close>. \<open>amountIn\<close> is the amount as given, in place of its decimal string.
\<close>

record SwapResult =
  txHash :: string
  fromToken :: string
  toToken :: string
  amountIn :: "real option"
  amountOut :: string
  dex :: string

text \<open>
  \<open>DynamicSwapService.executeSwap\<close>: a token cannot be swapped with itself; the rest
  (conversion of the amount, approval, quote and swap through the Vincent abilities)
  throws a message or returns the hash of the swap, as the world says.
\<close>

definition dynamic_executeSwap :: "(DynamicSwap \<Rightarrow> string + string) \<Rightarrow> DynamicSwap
    \<Rightarrow> string + SwapResult" where
  "dynamic_executeSwap outcome params =
     (if ds_fromAsset params = ds_toAsset params
      then Inl ''Impossible de swapper un token avec lui-meme''
      else
        (case outcome params of
           Inl e \<Rightarrow> Inl e
         | Inr swapHash \<Rightarrow>
             Inr \<lparr> txHash = swapHash, fromToken = ds_fromAsset params,
                   toToken = ds_toAsset params, amountIn = ds_amount params,
                   amountOut = ''0'', dex = ''uniswap'' \<rparr>))"

text \<open>
  \<open>DynamicSwapService.executeRebalanceSwaps\<close>: an exception of a swap is logged and the
  loop goes on with the next swap. The result carries the swaps that were attempted.
\<close>

fun dynamic_loop :: "(DynamicSwap \<Rightarrow> string + string) \<Rightarrow> DynamicSwap list
    \<Rightarrow> SwapResult list \<Rightarrow> DynamicSwap list \<Rightarrow> DynamicSwap list \<times> SwapResult list" where
  "dynamic_loop outcome [] results attempted = (attempted, results)"
| "dynamic_loop outcome (swap # rest) results attempted =
     (case dynamic_executeSwap outcome swap of
        Inl e \<Rightarrow> dynamic_loop outcome rest results (attempted @ [swap])
      | Inr result \<Rightarrow> dynamic_loop outcome rest (results @ [result]) (attempted @ [swap]))"

definition dynamic_executeRebalanceSwaps :: "(DynamicSwap \<Rightarrow> string + string)
    \<Rightarrow> DynamicSwap list \<Rightarrow> DynamicSwap list \<times> SwapResult list" where
  "dynamic_executeRebalanceSwaps outcome swps = dynamic_loop outcome swps [] []"

text \<open>
  Three swaps of 10 USD, from A to B, from B to C and from C to D, for a portfolio with
  its keys. In the world \<open>world_2_unconfirmed\<close> no approval is needed, the swap from
  \<open>x\<close> is submitted with the hash \<open>0x\<close> followed by \<open>x\<close>, and every transaction confirms
  but the one of the second swap.
\<close>

definition swap_10 :: "string \<Rightarrow> string \<Rightarrow> SwapOperation" where
  "swap_10 x y =
     \<lparr> tokenInSymbol = x, tokenOutSymbol = y, tokenInAddress = x, tokenOutAddress = y,
       tokenInDecimals = 6, tokenOutDecimals = 6, amountInUSD = 10,
       amountInTokens = 10000000, amountOutTokens = 10000000, swap_gap = 1 / 10 \<rparr>"

definition three_swaps :: "SwapOperation list" where
  "three_swaps = [swap_10 ''A'' ''B'', swap_10 ''B'' ''C'', swap_10 ''C'' ''D'']"

definition world_2_unconfirmed :: SwapWorld where
  "world_2_unconfirmed =
     \<lparr> handleTokenApproval = (\<lambda>s. Inr None),
       executeUniswapSwap = (\<lambda>s. Inr (''0x'' @ tokenInSymbol s)),
       confirmed = (\<lambda>h. h \<noteq> ''0xB'') \<rparr>"

definition portfolio_with_keys :: PortfolioDoc where
  "portfolio_with_keys =
     \<lparr> p_isActive = True, p_ethAddress = ''0xowner'', p_pkpPublicKey = Some ''0xkey'',
       p_rebalanceType = ''threshold'', rebalanceThreshold = Some (5 / 100) \<rparr>"

text \<open>
  The same three swaps for the service's executor, in a world where the second throws.
\<close>

definition three_dynamic_swaps :: "DynamicSwap list" where
  "three_dynamic_swaps =
     [\<lparr> ds_fromAsset = ''A'', ds_toAsset = ''B'', ds_amount = Some 10, ds_recipient = ''r'' \<rparr>,
      \<lparr> ds_fromAsset = ''B'', ds_toAsset = ''C'', ds_amount = Some 10, ds_recipient = ''r'' \<rparr>,
      \<lparr> ds_fromAsset = ''C'', ds_toAsset = ''D'', ds_amount = Some 10, ds_recipient = ''r'' \<rparr>]"

definition outcome_2_fails :: "DynamicSwap \<Rightarrow> string + string" where
  "outcome_2_fails s =
     (if ds_fromAsset s = ''B'' then Inl ''Execution Uniswap echouee''
      else Inr (''0x'' @ ds_fromAsset s))"

subsection \<open>The monitoring cycle of the job (portfolioMonitoring.ts)\<close>

datatype job_status = Pending | Executing | Completed | Failed | Cancelled

text \<open>The \<open>RebalanceJob\<close> document; \<open>deviationDetected\<close> is \<open>None\<close> for \<open>-Infinity\<close>.\<close>

record RebalanceJobDoc =
  rj_portfolioId :: string
  status :: job_status
  rj_rebalanceType :: string
  deviationDetected :: "real option"
  rj_swaps :: "(string \<times> string \<times> real option \<times> real) list"
  txHashes :: "string list"
  errorMessage :: "string option"








subsection \<open>The monitoring cycle of the service (\<open>PortfolioMonitoringJob\<close>)\<close>











subsection \<open>Validation of allocations at creation and update\<close>

record AllocationInput =
  ai_assetSymbol :: string
  ai_targetPercentage :: real

text \<open>\<open>allocations.reduce((sum, alloc) => sum + alloc.targetPercentage, 0)\<close>.\<close>

definition total_target :: "AllocationInput list \<Rightarrow> real" where
  "total_target allocs = foldl (\<lambda>acc alloc. acc + ai_targetPercentage alloc) 0 allocs"

text \<open>
  The field \<open>allocations\<close> of \<open>CreatePortfolioSchema\<close> and of \<open>UpdateAllocationsSchema\<close>:
  an array of at least one object with a non-empty symbol and a target between 0 and 1,
  refined by the sum of the targets.
\<close>

definition allocations_schema :: "AllocationInput list \<Rightarrow> bool" where
  "allocations_schema allocs \<longleftrightarrow>
     list_all (\<lambda>a. 1 \<le> length (ai_assetSymbol a) \<and>
                    0 \<le> ai_targetPercentage a \<and> ai_targetPercentage a \<le> 1) allocs \<and>
     1 \<le> length allocs \<and>
     \<bar>total_target allocs - 1\<bar> < 1 / 1000"

record CreatePortfolioBody =
  cp_name :: string
  cp_allocations :: "AllocationInput list"
  cp_rebalanceThreshold :: "real option"
  cp_monitoringFrequency :: "string option"
  cp_rebalanceType :: "string option"

definition CreatePortfolioSchema :: "CreatePortfolioBody \<Rightarrow> bool" where
  "CreatePortfolioSchema body \<longleftrightarrow>
     1 \<le> length (cp_name body) \<and> length (cp_name body) \<le> 100 \<and>
     allocations_schema (cp_allocations body) \<and>
     (case cp_rebalanceThreshold body of
        None \<Rightarrow> True | Some t \<Rightarrow> 1 / 1000 \<le> t \<and> t \<le> 1 / 2) \<and>
     (case cp_monitoringFrequency body of
        None \<Rightarrow> True
      | Some f \<Rightarrow> f \<in> set [''10s'', ''1m'', ''5m'', ''15m'', ''1h'', ''4h'', ''1d'']) \<and>
     (case cp_rebalanceType body of
        None \<Rightarrow> True | Some t \<Rightarrow> t \<in> set [''threshold'', ''strict_periodic''])"



text \<open>The collections of portfolios and allocations.\<close>

record PortfolioRecord =
  pr_id :: string
  pr_ethAddress :: string
  pr_name :: string
  pr_rebalanceThreshold :: real
  pr_monitoringFrequency :: string
  pr_rebalanceType :: string

record AllocationRecord =
  ar_portfolioId :: string
  ar_assetId :: string
  ar_targetPercentage :: real

record Db =
  db_portfolios :: "PortfolioRecord list"
  db_allocations :: "AllocationRecord list"

text \<open>
  What the outside gives to the service: the id of the active asset with a symbol, the id
  that the new portfolio gets, and the exception of \<open>portfolio.save()\<close> if it throws.
\<close>

record ApiWorld =
  findActiveAsset :: "string \<Rightarrow> string option"
  newPortfolioId :: string
  portfolioSaveError :: "string option"

datatype route_error = ZodError | AccessDenied | Thrown string

text \<open>\<open>toUpperCase\<close> and \<open>toLowerCase\<close>, on the letters of ASCII.\<close>

definition upper_char :: "char \<Rightarrow> char" where
  "upper_char c =
     (if 97 \<le> (of_char c :: nat) \<and> (of_char c :: nat) \<le> 122
      then char_of ((of_char c :: nat) - 32) else c)"

definition lower_char :: "char \<Rightarrow> char" where
  "lower_char c =
     (if 65 \<le> (of_char c :: nat) \<and> (of_char c :: nat) \<le> 90
      then char_of ((of_char c :: nat) + 32) else c)"

text \<open>
  \<open>allocation.save()\<close>: the validators of the schema (a target between 0 and 1), then the
  \<open>pre('save')\<close> hook, which refuses a total above 1 for the portfolio, then the insert,
  which the unique index on portfolio and asset can refuse.
\<close>

definition save_allocation :: "AllocationRecord \<Rightarrow> Db \<Rightarrow> string + Db" where
  "save_allocation rec db =
     (let others = filter (\<lambda>a. ar_portfolioId a = ar_portfolioId rec) (db_allocations db);
          totalPercentage =
            foldl (\<lambda>acc a. acc + ar_targetPercentage a) 0 others + ar_targetPercentage rec
      in if ar_targetPercentage rec < 0 \<or> 1 < ar_targetPercentage rec
         then Inl ''Allocation validation failed''
         else if 1 < totalPercentage
         then Inl ''Total allocation percentage cannot exceed 100%''
         else if list_ex (\<lambda>a. ar_assetId a = ar_assetId rec) others
         then Inl ''E11000 duplicate key error''
         else Inr (db\<lparr>db_allocations := db_allocations db @ [rec]\<rparr>))"

text \<open>
  The loop that creates the allocations, in \<open>createPortfolio\<close> and in
  \<open>updatePortfolioAllocations\<close>: an exception leaves what was saved before it.
\<close>

fun create_allocations :: "ApiWorld \<Rightarrow> string \<Rightarrow> AllocationInput list \<Rightarrow> Db
    \<Rightarrow> Db \<times> (route_error + unit)" where
  "create_allocations world portfolioId [] db = (db, Inr ())"
| "create_allocations world portfolioId (allocationData # rest) db =
     (case findActiveAsset world (map upper_char (ai_assetSymbol allocationData)) of
        None \<Rightarrow>
          (db, Inl (Thrown (''Asset '' @ ai_assetSymbol allocationData @ '' not found or inactive'')))
      | Some assetId \<Rightarrow>
          (case save_allocation
                  \<lparr> ar_portfolioId = portfolioId, ar_assetId = assetId,
                    ar_targetPercentage = ai_targetPercentage allocationData \<rparr> db of
             Inl e \<Rightarrow> (db, Inl (Thrown e))
           | Inr db' \<Rightarrow> create_allocations world portfolioId rest db'))"

text \<open>
  \<open>PortfolioService.createPortfolio\<close>, with the defaults of its \<open>||\<close>. A failure to
  schedule the monitoring job is logged and swallowed.
\<close>

definition createPortfolio :: "ApiWorld \<Rightarrow> string \<Rightarrow> CreatePortfolioBody \<Rightarrow> Db
    \<Rightarrow> Db \<times> (route_error + string)" where
  "createPortfolio world ownerAddress data db =
     (if 1 / 1000 < \<bar>total_target (cp_allocations data) - 1\<bar>
      then (db, Inl (Thrown ''Total allocation percentage must equal 100%''))
      else
        (case portfolioSaveError world of
           Some e \<Rightarrow> (db, Inl (Thrown e))
         | None \<Rightarrow>
             (let portfolio =
                    \<lparr> pr_id = newPortfolioId world,
                      pr_ethAddress = map lower_char ownerAddress,
                      pr_name = cp_name data,
                      pr_rebalanceThreshold =
                        (case cp_rebalanceThreshold data of
                           None \<Rightarrow> 5 / 100 | Some t \<Rightarrow> if t = 0 then 5 / 100 else t),
                      pr_monitoringFrequency =
                        (case cp_monitoringFrequency data of
                           None \<Rightarrow> ''1h'' | Some f \<Rightarrow> if f = [] then ''1h'' else f),
                      pr_rebalanceType =
                        (case cp_rebalanceType data of
                           None \<Rightarrow> ''threshold'' | Some t \<Rightarrow> if t = [] then ''threshold'' else t) \<rparr>
              in case create_allocations world (newPortfolioId world) (cp_allocations data)
                        (db\<lparr>db_portfolios := db_portfolios db @ [portfolio]\<rparr>) of
                   (db', Inl e) \<Rightarrow> (db', Inl e)
                 | (db', Inr u) \<Rightarrow> (db', Inr (newPortfolioId world)))))"


text \<open>
  The routes: the body is parsed with the schema before the service is called; the
  update also checks that the portfolio belongs to the caller.
\<close>

definition handleCreatePortfolioRoute :: "ApiWorld \<Rightarrow> string \<Rightarrow> CreatePortfolioBody \<Rightarrow> Db
    \<Rightarrow> Db \<times> (route_error + string)" where
  "handleCreatePortfolioRoute world callerAddress body db =
     (if \<not> CreatePortfolioSchema body then (db, Inl ZodError)
      else createPortfolio world callerAddress body db)"


text \<open>
  A world in which the assets A and B are active, an empty database, and three bodies:
  the targets 50% and 50%; the targets 150% and -50%, which sum to 1; the targets 100%
  and 0.05%, which sum to 1 within the tolerance.
\<close>

definition api_world :: ApiWorld where
  "api_world =
     \<lparr> findActiveAsset = (\<lambda>s. if s = ''A'' \<or> s = ''B'' then Some (''asset-'' @ s) else None),
       newPortfolioId = ''0123456789abcdef01234567'',
       portfolioSaveError = None \<rparr>"

definition empty_db :: Db where
  "empty_db = \<lparr> db_portfolios = [], db_allocations = [] \<rparr>"

definition body_with :: "real \<Rightarrow> real \<Rightarrow> CreatePortfolioBody" where
  "body_with a b =
     \<lparr> cp_name = ''P'',
       cp_allocations = [\<lparr> ai_assetSymbol = ''A'', ai_targetPercentage = a \<rparr>,
                         \<lparr> ai_assetSymbol = ''B'', ai_targetPercentage = b \<rparr>],
       cp_rebalanceThreshold = None, cp_monitoringFrequency = None, cp_rebalanceType = None \<rparr>"

section \<open>Properties\<close>

subsection \<open>The planner: auxiliary facts\<close>

lemma reduce_max_from_spec:
  assumes "mi < length pre" "mx = difference (pre ! mi)"
    "\<forall>j<length pre. difference (pre ! j) \<le> mx"
    "\<forall>j<mi. difference (pre ! j) < mx"
  shows "reduce_max_from mx mi (length pre) as < length (pre @ as) \<and>
         (\<forall>j<length (pre @ as). difference ((pre @ as) ! j)
              \<le> difference ((pre @ as) ! reduce_max_from mx mi (length pre) as)) \<and>
         (\<forall>j<reduce_max_from mx mi (length pre) as. difference ((pre @ as) ! j)
              < difference ((pre @ as) ! reduce_max_from mx mi (length pre) as))"
  using assms
proof (induction as arbitrary: pre mx mi)
  case Nil
  then show ?case by simp
next
  case (Cons a as)
  show ?case
  proof (cases "mx < difference a")
    case True
    have "reduce_max_from (difference a) (length pre) (length (pre @ [a])) as < length ((pre @ [a]) @ as) \<and>
         (\<forall>j<length ((pre @ [a]) @ as). difference (((pre @ [a]) @ as) ! j)
              \<le> difference (((pre @ [a]) @ as) ! reduce_max_from (difference a) (length pre) (length (pre @ [a])) as)) \<and>
         (\<forall>j<reduce_max_from (difference a) (length pre) (length (pre @ [a])) as. difference (((pre @ [a]) @ as) ! j)
              < difference (((pre @ [a]) @ as) ! reduce_max_from (difference a) (length pre) (length (pre @ [a])) as))"
    proof (rule Cons.IH)
      show "length pre < length (pre @ [a])" by simp
      show "difference a = difference ((pre @ [a]) ! length pre)" by simp
      show "\<forall>j<length (pre @ [a]). difference ((pre @ [a]) ! j) \<le> difference a"
        using Cons.prems True by (auto simp: nth_append less_Suc_eq)
      show "\<forall>j<length pre. difference ((pre @ [a]) ! j) < difference a"
        using Cons.prems True by (auto simp: nth_append)
    qed
    then show ?thesis using True by simp
  next
    case False
    have "reduce_max_from mx mi (length (pre @ [a])) as < length ((pre @ [a]) @ as) \<and>
         (\<forall>j<length ((pre @ [a]) @ as). difference (((pre @ [a]) @ as) ! j)
              \<le> difference (((pre @ [a]) @ as) ! reduce_max_from mx mi (length (pre @ [a])) as)) \<and>
         (\<forall>j<reduce_max_from mx mi (length (pre @ [a])) as. difference (((pre @ [a]) @ as) ! j)
              < difference (((pre @ [a]) @ as) ! reduce_max_from mx mi (length (pre @ [a])) as))"
    proof (rule Cons.IH)
      show "mi < length (pre @ [a])" using Cons.prems by simp
      show "mx = difference ((pre @ [a]) ! mi)" using Cons.prems by (simp add: nth_append)
      show "\<forall>j<length (pre @ [a]). difference ((pre @ [a]) ! j) \<le> mx"
        using Cons.prems False by (auto simp: nth_append less_Suc_eq)
      show "\<forall>j<mi. difference ((pre @ [a]) ! j) < mx"
        using Cons.prems by (auto simp: nth_append)
    qed
    then show ?thesis using False by simp
  qed
qed

lemma reduce_max_None: "reduce_max xs = None \<longleftrightarrow> xs = []"
  by (simp add: reduce_max_def split: list.splits)

lemma reduce_max_Some:
  assumes "reduce_max xs = Some i"
  shows "i < length xs \<and> (\<forall>j<length xs. difference (xs ! j) \<le> difference (xs ! i)) \<and>
         (\<forall>j<i. difference (xs ! j) < difference (xs ! i))"
proof (cases xs)
  case Nil
  then show ?thesis using assms by (simp add: reduce_max_def)
next
  case (Cons a as)
  have i: "i = reduce_max_from (difference a) 0 (length [a]) as"
    using assms Cons by (simp add: reduce_max_def)
  have "reduce_max_from (difference ([a] ! 0)) 0 (length [a]) as < length ([a] @ as) \<and>
         (\<forall>j<length ([a] @ as). difference (([a] @ as) ! j)
              \<le> difference (([a] @ as) ! reduce_max_from (difference ([a] ! 0)) 0 (length [a]) as)) \<and>
         (\<forall>j<reduce_max_from (difference ([a] ! 0)) 0 (length [a]) as. difference (([a] @ as) ! j)
              < difference (([a] @ as) ! reduce_max_from (difference ([a] ! 0)) 0 (length [a]) as))"
    by (rule reduce_max_from_spec) simp_all
  then show ?thesis using i Cons by simp
qed

lemma separate_closed:
  "separate tvs B S =
     (B @ map (\<lambda>a. with_difference a (tv_diff a)) (filter (\<lambda>a. 0 < tv_diff a) tvs),
      S @ map (\<lambda>a. with_difference a \<bar>tv_diff a\<bar>) (filter (\<lambda>a. tv_diff a < 0) tvs))"
  by (induction tvs arbitrary: B S) (auto simp: tv_diff_def Let_def)

lemma with_difference_simps [simp]:
  "difference (with_difference a d) = d"
  "tv_symbol (with_difference a d) = tv_symbol a"
  "tv_asset (with_difference a d) = tv_asset a"
  "tv_gap (with_difference a d) = tv_gap a"
  by (simp_all add: with_difference_def TargetValue.extend_def TargetDiff.fields_def)

lemma buy_step_cases:
  assumes "buy_step allocations S b A = Inr (S', A')"
  shows "(S' = S \<and> A' = A) \<or>
         (\<exists>i sa ba s. reduce_max S = Some i \<and> 1 / 100 < difference (S ! i) \<and>
            find_allocation allocations (tv_symbol (S ! i)) = Some sa \<and>
            find_allocation allocations (tv_symbol b) = Some ba \<and>
            tokenInSymbol s = tv_symbol (S ! i) \<and> tokenOutSymbol s = tv_symbol b \<and>
            tokenInDecimals s = decimals (tv_asset (S ! i)) \<and>
            tokenOutDecimals s = decimals (tv_asset b) \<and>
            amountInUSD s = min (difference (S ! i)) (difference b) \<and>
            swap_gap s = \<bar>tv_gap (S ! i)\<bar> + \<bar>tv_gap b\<bar> \<and>
            parseUnits_toFixed (amountInUSD s) (currentPriceUSD sa) (tokenInDecimals s)
              = Inr (amountInTokens s) \<and>
            parseUnits_toFixed (amountInUSD s) (currentPriceUSD ba) (tokenOutDecimals s)
              = Inr (amountOutTokens s) \<and>
            S' = S[i := (S ! i)\<lparr>difference := difference (S ! i) - amountInUSD s\<rparr>] \<and>
            A' = A @ [s])"
  using assms unfolding buy_step_def Let_def
  by (auto split: option.splits sum.splits if_splits)









lemma remaining_map_filter:
  "remaining x (map (\<lambda>a. with_difference a (g a)) (filter P tvs)) =
     (\<Sum>a\<leftarrow>tvs. if P a \<and> tv_symbol a = x then g a else 0)"
  unfolding remaining_def by (induction tvs) simp_all

lemma tv_diff_targetValue [simp]:
  "tv_diff (targetValue t a) = t * targetPercentage a - currentValueUSD a"
  "tv_symbol (targetValue t a) = symbol (asset a)"
  by (simp_all add: tv_diff_def targetValue_def)


lemma remaining_assetsToBuy: "remaining y (assetsToBuy allocations) = deficit allocations y"
proof -
  have "remaining y (assetsToBuy allocations) =
        (\<Sum>a\<leftarrow>map (targetValue (sumCurrentValueUSD allocations)) allocations.
            if 0 < tv_diff a \<and> tv_symbol a = y then tv_diff a else 0)"
    unfolding assetsToBuy_def separate_closed by (simp add: remaining_map_filter)
  also have "\<dots> = deficit allocations y"
    unfolding deficit_def map_map comp_def
    by (rule arg_cong[where f = sum_list], rule map_cong) auto
  finally show ?thesis .
qed



lemma plan_cases:
  assumes "calculateRebalanceSwaps allocations tolerance = Inr plan"
  shows "swaps plan = [] \<or>
         (\<exists>S' A'. buy_loop allocations (assetsToSell allocations) (assetsToBuy allocations) [] = Inr (S', A')
            \<and> swaps plan = sort_swaps A')"
  using assms unfolding calculateRebalanceSwaps_def Let_def assetsToSell_def assetsToBuy_def
  by (auto split: if_splits sum.splits prod.splits)



subsection \<open>C1: plan conservation\<close>

lemma plan_ABCD_computed: "calculateRebalanceSwaps portfolio_ABCD (1 / 1000) = Inr plan_ABCD"
  by code_simp




subsection \<open>C7: a deficit without any surplus\<close>

text \<open>
  C7. When the deficit list is not empty and the surplus list is empty, the planner does
  not return: the \<open>reduce\<close> without initial value that looks for the largest surplus
  raises a TypeError on the empty \<open>assetsToSell\<close>. Here B has a deficit of \<open>1e-18\<close> USD
  and no asset has a surplus.
\<close>

theorem unfilled_deficit_empty_surplus_throws:
  "assetsToSell portfolio_no_surplus = [] \<and>
   map tv_symbol (assetsToBuy portfolio_no_surplus) = [''B''] \<and>
   calculateRebalanceSwaps portfolio_no_surplus (1 / 1000) = Inl ReduceOfEmptyArray"
  by code_simp

subsection \<open>The planner: where each swap comes from\<close>

lemma buy_loop_append:
  "buy_loop allocations S (xs @ ys) A =
     (case buy_loop allocations S xs A of
        Inl e \<Rightarrow> Inl e
      | Inr (S1, A1) \<Rightarrow> buy_loop allocations S1 ys A1)"
  by (induction xs arbitrary: S A) (auto split: sum.splits)

lemma buy_loop_snoc:
  assumes "buy_loop allocations S (bs @ [b]) A = Inr (S', A')"
  obtains S1 A1 where "buy_loop allocations S bs A = Inr (S1, A1)"
    and "buy_step allocations S1 b A1 = Inr (S', A')"
  using assms unfolding buy_loop_append by (auto split: sum.splits)

lemma buy_step_swaps:
  assumes "buy_step allocations S b A = Inr (S', A')"
  shows "A' = A \<or> (\<exists>s. A' = A @ [s] \<and> tokenOutSymbol s = tv_symbol b)"
  using buy_step_cases[OF assms] by auto

text \<open>Every swap that the loop adds comes from one iteration.\<close>

lemma buy_loop_origin:
  assumes "buy_loop allocations S bs A = Inr (S', A')"
  shows "\<exists>new. A' = A @ new \<and> subseq (map tokenOutSymbol new) (map tv_symbol bs) \<and>
           (\<forall>s\<in>set new. \<exists>k<length bs. \<exists>Sk Ak Sk'.
               buy_loop allocations S (take k bs) A = Inr (Sk, Ak) \<and>
               buy_step allocations Sk (bs ! k) Ak = Inr (Sk', Ak @ [s]))"
  using assms
proof (induction bs arbitrary: S' A' rule: rev_induct)
  case Nil
  then show ?case by simp
next
  case (snoc b bs)
  from snoc.prems obtain S1 A1 where
    lp: "buy_loop allocations S bs A = Inr (S1, A1)" and
    st: "buy_step allocations S1 b A1 = Inr (S', A')"
    by (rule buy_loop_snoc)
  from snoc.IH[OF lp] obtain new where
    A1: "A1 = A @ new" and
    sub: "subseq (map tokenOutSymbol new) (map tv_symbol bs)" and
    orig: "\<forall>s\<in>set new. \<exists>k<length bs. \<exists>Sk Ak Sk'.
               buy_loop allocations S (take k bs) A = Inr (Sk, Ak) \<and>
               buy_step allocations Sk (bs ! k) Ak = Inr (Sk', Ak @ [s])"
    by blast
  have old: "\<exists>k<length (bs @ [b]). \<exists>Sk Ak Sk'.
               buy_loop allocations S (take k (bs @ [b])) A = Inr (Sk, Ak) \<and>
               buy_step allocations Sk ((bs @ [b]) ! k) Ak = Inr (Sk', Ak @ [s])"
    if "s \<in> set new" for s
  proof -
    from orig that obtain k Sk Ak Sk' where "k < length bs"
      "buy_loop allocations S (take k bs) A = Inr (Sk, Ak)"
      "buy_step allocations Sk (bs ! k) Ak = Inr (Sk', Ak @ [s])" by blast
    then show ?thesis by (intro exI[of _ k]) (auto simp: nth_append)
  qed
  from buy_step_swaps[OF st] show ?case
  proof
    assume "A' = A1"
    then have "A' = A @ new" using A1 by simp
    moreover have "subseq (map tokenOutSymbol new) (map tv_symbol (bs @ [b]))"
      using sub by (simp add: subseq_rev_drop_many)
    ultimately show ?thesis using old by blast
  next
    assume "\<exists>s. A' = A1 @ [s] \<and> tokenOutSymbol s = tv_symbol b"
    then obtain s0 where s0: "A' = A1 @ [s0]" "tokenOutSymbol s0 = tv_symbol b" by blast
    have 1: "A' = A @ (new @ [s0])" using s0 A1 by simp
    have 2: "subseq (map tokenOutSymbol (new @ [s0])) (map tv_symbol (bs @ [b]))"
      using sub s0 by (simp add: list_emb_append_mono)
    have 3: "\<exists>k<length (bs @ [b]). \<exists>Sk Ak Sk'.
               buy_loop allocations S (take k (bs @ [b])) A = Inr (Sk, Ak) \<and>
               buy_step allocations Sk ((bs @ [b]) ! k) Ak = Inr (Sk', Ak @ [s])"
      if "s \<in> set (new @ [s0])" for s
    proof (cases "s \<in> set new")
      case True
      then show ?thesis by (rule old)
    next
      case False
      then have "s = s0" using that by simp
      then show ?thesis using lp st s0
        by (intro exI[of _ "length bs"]) simp
    qed
    from 1 2 3 show ?thesis by blast
  qed
qed

lemma buy_loop_count:
  assumes "buy_loop allocations S bs A = Inr (S', A')"
  shows "length (filter (\<lambda>s. tokenOutSymbol s = y) A') \<le>
         length (filter (\<lambda>s. tokenOutSymbol s = y) A) + length (filter (\<lambda>b. tv_symbol b = y) bs)"
  using assms
proof (induction bs arbitrary: S' A' rule: rev_induct)
  case Nil
  then show ?case by simp
next
  case (snoc b bs)
  from snoc.prems obtain S1 A1 where
    lp: "buy_loop allocations S bs A = Inr (S1, A1)" and
    st: "buy_step allocations S1 b A1 = Inr (S', A')"
    by (rule buy_loop_snoc)
  from buy_step_swaps[OF st] snoc.IH[OF lp] show ?case by auto
qed

lemma set_sort_swaps [simp]: "set (sort_swaps A) = set A"
  by (simp add: sort_swaps_def)

lemma plan_swap_origin:
  assumes "calculateRebalanceSwaps allocations tolerance = Inr plan"
    and "s \<in> set (swaps plan)"
  shows "\<exists>k<length (assetsToBuy allocations). \<exists>Ak Sk'.
           buy_loop allocations (assetsToSell allocations) (take k (assetsToBuy allocations)) []
             = Inr (sell_state allocations k, Ak) \<and>
           buy_step allocations (sell_state allocations k) (assetsToBuy allocations ! k) Ak
             = Inr (Sk', Ak @ [s])"
proof -
  from plan_cases[OF assms(1)] assms(2) obtain S' A' where
    lp: "buy_loop allocations (assetsToSell allocations) (assetsToBuy allocations) [] = Inr (S', A')"
    and pl: "swaps plan = sort_swaps A'" by auto
  from buy_loop_origin[OF lp] assms(2) pl obtain k Sk Ak Sk' where
    k: "k < length (assetsToBuy allocations)" and
    pre: "buy_loop allocations (assetsToSell allocations) (take k (assetsToBuy allocations)) [] = Inr (Sk, Ak)" and
    st: "buy_step allocations Sk (assetsToBuy allocations ! k) Ak = Inr (Sk', Ak @ [s])"
    by auto
  have "sell_state allocations k = Sk" by (simp add: sell_state_def pre)
  with k pre st show ?thesis by blast
qed

lemma reduce_max_largest: "reduce_max S = Some i \<Longrightarrow> largest_remaining S i"
  unfolding largest_remaining_def by (rule reduce_max_Some)

lemma plan_swap_facts:
  assumes "calculateRebalanceSwaps allocations tolerance = Inr plan"
    and "s \<in> set (swaps plan)"
  shows "\<exists>k i sa ba. k < length (assetsToBuy allocations) \<and>
           reduce_max (sell_state allocations k) = Some i \<and>
           1 / 100 < difference (sell_state allocations k ! i) \<and>
           find_allocation allocations (tokenInSymbol s) = Some sa \<and>
           find_allocation allocations (tokenOutSymbol s) = Some ba \<and>
           tokenInSymbol s = tv_symbol (sell_state allocations k ! i) \<and>
           tokenOutSymbol s = tv_symbol (assetsToBuy allocations ! k) \<and>
           amountInUSD s = min (difference (sell_state allocations k ! i))
                               (difference (assetsToBuy allocations ! k)) \<and>
           parseUnits_toFixed (amountInUSD s) (currentPriceUSD sa) (tokenInDecimals s)
              = Inr (amountInTokens s) \<and>
           parseUnits_toFixed (amountInUSD s) (currentPriceUSD ba) (tokenOutDecimals s)
              = Inr (amountOutTokens s)"
proof -
  from plan_swap_origin[OF assms] obtain k Ak Sk' where
    k: "k < length (assetsToBuy allocations)" and
    st: "buy_step allocations (sell_state allocations k) (assetsToBuy allocations ! k) Ak
             = Inr (Sk', Ak @ [s])" by blast
  from buy_step_cases[OF st] k show ?thesis by auto
qed

subsection \<open>C4: rounding of token amounts\<close>






lemma find_WBTC: "find_allocation portfolio_WBTC_USDC ''WBTC'' = Some (mkAllocation 1000 ''WBTC'' (1 / 2) 600 60000 8)"
  by code_simp




subsection \<open>C10: one surplus asset for each deficit asset\<close>

lemma assetsToBuy_symbols:
  "map tv_symbol (assetsToBuy allocations) =
     map (\<lambda>a. symbol (asset a))
       (filter (\<lambda>a. currentValueUSD a < sumCurrentValueUSD allocations * targetPercentage a)
          allocations)"
  unfolding assetsToBuy_def separate_closed
  by (simp add: comp_def filter_map)


lemma distinct_assetsToBuy:
  assumes "distinct (map (\<lambda>a. symbol (asset a)) allocations)"
  shows "distinct (map tv_symbol (assetsToBuy allocations))"
  unfolding assetsToBuy_symbols using assms by (rule distinct_map_filter)

lemma distinct_count_le_1:
  "distinct (map f xs) \<Longrightarrow> length (filter (\<lambda>x. f x = y) xs) \<le> 1"
proof (induction xs)
  case Nil
  then show ?case by simp
next
  case (Cons a xs)
  show ?case
  proof (cases "f a = y")
    case True
    have "f a \<notin> f ` set xs" using Cons.prems by simp
    then have "\<forall>x\<in>set xs. f x \<noteq> f a" by (metis imageI)
    then have "filter (\<lambda>x. f x = y) xs = []"
      using True by (simp add: filter_empty_conv)
    then show ?thesis using True by simp
  next
    case False
    then show ?thesis using Cons by simp
  qed
qed

lemma remaining_absent: "y \<notin> tv_symbol ` set bs \<Longrightarrow> remaining y bs = 0"
  unfolding remaining_def by (induction bs) auto

lemma distinct_remaining:
  "distinct (map tv_symbol bs) \<Longrightarrow> k < length bs \<Longrightarrow>
     remaining (tv_symbol (bs ! k)) bs = difference (bs ! k)"
proof (induction bs arbitrary: k)
  case Nil
  then show ?case by simp
next
  case (Cons b bs)
  have z: "remaining (tv_symbol b) bs = 0"
    using Cons.prems(1) by (intro remaining_absent) simp
  show ?case
  proof (cases k)
    case 0
    then show ?thesis using z by (simp add: remaining_def)
  next
    case (Suc j)
    then have j: "j < length bs" using Cons.prems by simp
    then have "tv_symbol (bs ! j) \<noteq> tv_symbol b"
      using Cons.prems(1) by (metis distinct.simps(2) list.simps(9) nth_map nth_mem length_map)
    then show ?thesis using Cons.IH[OF _ j] Cons.prems(1) Suc
      by (simp add: remaining_def)
  qed
qed

lemma sum_to_filter:
  "sum_to y swps = sum_list (map amountInUSD (filter (\<lambda>s. tokenOutSymbol s = y) swps))"
  unfolding sum_to_def by (induction swps) simp_all

lemma plan_count:
  assumes "calculateRebalanceSwaps allocations tolerance = Inr plan"
  shows "length (filter (\<lambda>s. tokenOutSymbol s = y) (swaps plan)) \<le>
         length (filter (\<lambda>b. tv_symbol b = y) (assetsToBuy allocations))"
proof -
  from plan_cases[OF assms] show ?thesis
  proof
    assume "swaps plan = []"
    then show ?thesis by simp
  next
    assume "\<exists>S' A'. buy_loop allocations (assetsToSell allocations) (assetsToBuy allocations) [] = Inr (S', A')
            \<and> swaps plan = sort_swaps A'"
    then obtain S' A' where
      lp: "buy_loop allocations (assetsToSell allocations) (assetsToBuy allocations) [] = Inr (S', A')"
      and pl: "swaps plan = sort_swaps A'" by blast
    have "length (filter (\<lambda>s. tokenOutSymbol s = y) (swaps plan)) =
          length (filter (\<lambda>s. tokenOutSymbol s = y) A')"
      unfolding pl sort_swaps_def by (simp add: filter_sort)
    then show ?thesis using buy_loop_count[OF lp, of y] by simp
  qed
qed

lemma distinct_ABCD: "distinct (map (\<lambda>a. symbol (asset a)) portfolio_ABCD)"
  by code_simp

lemma state_ABCD:
  "map (\<lambda>e. (tv_symbol e, difference e)) (sell_state portfolio_ABCD 1) = [(''A'', 30), (''D'', 40)]"
  "deficit portfolio_ABCD ''C'' = 70"
  by code_simp+

text \<open>
  C10. In a plan of \<open>calculateRebalanceSwaps\<close> for allocations of distinct assets, a swap
  \<open>s\<close> is the only swap of the plan with its destination. It was emitted when the loop
  reached its deficit asset, the \<open>k\<close>-th asset to buy; its source is the element of
  \<open>assetsToSell\<close> whose remaining difference was the largest at that moment; and it
  trades the minimum of that remaining difference and the deficit. The deficit asset
  receives nothing else: when the deficit exceeds the remaining difference of that one
  surplus asset, the rest of the deficit stays unfilled, whatever the other surplus
  assets still hold.
\<close>

theorem single_surplus_matching:
  assumes "calculateRebalanceSwaps allocations tolerance = Inr plan"
    and "distinct (map (\<lambda>a. symbol (asset a)) allocations)"
    and "s \<in> set (swaps plan)"
  shows "filter (\<lambda>s'. tokenOutSymbol s' = tokenOutSymbol s) (swaps plan) = [s] \<and>
         (\<exists>k i. k < length (assetsToBuy allocations) \<and>
            tokenOutSymbol s = tv_symbol (assetsToBuy allocations ! k) \<and>
            difference (assetsToBuy allocations ! k) = deficit allocations (tokenOutSymbol s) \<and>
            largest_remaining (sell_state allocations k) i \<and>
            tokenInSymbol s = tv_symbol (sell_state allocations k ! i) \<and>
            amountInUSD s = min (difference (sell_state allocations k ! i))
                                (deficit allocations (tokenOutSymbol s)) \<and>
            sum_to (tokenOutSymbol s) (swaps plan) = amountInUSD s)"
proof -
  let ?y = "tokenOutSymbol s"
  let ?f = "filter (\<lambda>s'. tokenOutSymbol s' = ?y) (swaps plan)"
  have d: "distinct (map tv_symbol (assetsToBuy allocations))"
    by (rule distinct_assetsToBuy[OF assms(2)])
  have "length ?f \<le> 1"
    using plan_count[OF assms(1), of ?y] distinct_count_le_1[OF d, of ?y] by linarith
  moreover have "s \<in> set ?f" using assms(3) by simp
  ultimately have one: "?f = [s]"
    by (cases ?f) (auto simp: le_Suc_eq)
  from plan_swap_facts[OF assms(1) assms(3)] obtain k i where
    k: "k < length (assetsToBuy allocations)" and
    r: "reduce_max (sell_state allocations k) = Some i" and
    tin: "tokenInSymbol s = tv_symbol (sell_state allocations k ! i)" and
    tout: "?y = tv_symbol (assetsToBuy allocations ! k)" and
    amt: "amountInUSD s = min (difference (sell_state allocations k ! i))
                               (difference (assetsToBuy allocations ! k))"
    by blast
  have def: "difference (assetsToBuy allocations ! k) = deficit allocations ?y"
    using distinct_remaining[OF d k] remaining_assetsToBuy[of ?y allocations] tout by simp
  have st: "sum_to ?y (swaps plan) = amountInUSD s"
    unfolding sum_to_filter one by simp
  from one k tout def reduce_max_largest[OF r] tin amt st show ?thesis
    by (intro conjI exI[of _ k] exI[of _ i]) simp_all
qed

text \<open>
  On the portfolio A, B, C, D: when the loop reaches C (deficit 70 USD), A has 30 USD left
  to sell and D has 40 USD; the only swap to C takes 40 USD from D, and 30 USD of the
  deficit stay unfilled although A still has 30 USD to sell.
\<close>

theorem single_surplus_matching_witness:
  "calculateRebalanceSwaps portfolio_ABCD (1 / 1000) = Inr plan_ABCD \<and>
   distinct (map (\<lambda>a. symbol (asset a)) portfolio_ABCD) \<and>
   hd (swaps plan_ABCD) \<in> set (swaps plan_ABCD) \<and>
   filter (\<lambda>s'. tokenOutSymbol s' = ''C'') (swaps plan_ABCD) = [hd (swaps plan_ABCD)] \<and>
   sum_to ''C'' (swaps plan_ABCD) = 40 \<and>
   deficit portfolio_ABCD ''C'' = 70 \<and>
   map (\<lambda>e. (tv_symbol e, difference e)) (sell_state portfolio_ABCD 1) = [(''A'', 30), (''D'', 40)]"
proof -
  have m: "hd (swaps plan_ABCD) \<in> set (swaps plan_ABCD)"
    by (simp add: plan_ABCD_def)
  have o: "tokenOutSymbol (hd (swaps plan_ABCD)) = ''C''" "amountInUSD (hd (swaps plan_ABCD)) = 40"
    by (simp_all add: plan_ABCD_def)
  from single_surplus_matching[OF plan_ABCD_computed distinct_ABCD m]
  show ?thesis using plan_ABCD_computed distinct_ABCD m o state_ABCD by auto
qed

subsection \<open>C3: the order of the matching\<close>






subsection \<open>C6: the gate on the deviation\<close>










subsection \<open>C5: strict periodic planning against threshold planning\<close>











lemma strict_filter_fields [simp]:
  "d_needsRebalance (strict_filter d) = (deviation d \<noteq> 0)"
  "is_excess (strict_filter d) = is_excess d"
  "is_deficit (strict_filter d) = is_deficit d"
  "amountToSell (strict_filter d) = amountToSell d"
  by (simp_all add: strict_filter_def is_excess_def is_deficit_def amountToSell_def)






subsection \<open>C2: the executor stops at the first failure\<close>

lemma swaps_loop_step_ok:
  assumes "swap_result world s = Inr h"
  shows "swaps_loop world i (s # rest) hs tr =
           swaps_loop world (i + 1) rest (hs @ [h]) (tr @ swap_calls world s)"
  using assms
  by (cases "executeSwap world s")
     (auto simp: swap_result_def swap_calls_def split: sum.splits)

lemma swaps_loop_step_fail:
  assumes "swap_result world s = Inl e"
  shows "swaps_loop world i (s # rest) hs tr =
           (tr @ swap_calls world s, Inl (rebalancing_stopped (i + 1) e))"
  using assms
  by (cases "executeSwap world s")
     (auto simp: swap_result_def swap_calls_def waitForTransaction_def split: sum.splits if_splits)

lemma swaps_loop_abort:
  assumes "\<forall>s\<in>set pre. \<exists>h. swap_result world s = Inr h"
    and "swap_result world failing = Inl msg"
  shows "swaps_loop world i (pre @ failing # post) hs tr =
           (tr @ concat (map (swap_calls world) (pre @ [failing])),
            Inl (rebalancing_stopped (i + length pre + 1) msg))"
  using assms(1)
proof (induction pre arbitrary: i hs tr)
  case Nil
  then show ?case using swaps_loop_step_fail[OF assms(2)] by simp
next
  case (Cons s pre)
  from Cons.prems obtain h where h: "swap_result world s = Inr h" by auto
  have rest: "\<forall>s\<in>set pre. \<exists>h. swap_result world s = Inr h" using Cons.prems by simp
  show ?case
    using swaps_loop_step_ok[OF h] Cons.IH[OF rest] by simp
qed

lemma swaps_loop_all_ok:
  assumes "\<forall>s\<in>set swps. \<exists>h. swap_result world s = Inr h"
  shows "swaps_loop world i swps hs tr =
           (tr @ concat (map (swap_calls world) swps),
            Inr (hs @ map (\<lambda>s. projr (swap_result world s)) swps))"
  using assms
proof (induction swps arbitrary: i hs tr)
  case Nil
  then show ?case by simp
next
  case (Cons s swps)
  from Cons.prems obtain h where h: "swap_result world s = Inr h" by auto
  have rest: "\<forall>s\<in>set swps. \<exists>h. swap_result world s = Inr h" using Cons.prems by simp
  show ?case
    using swaps_loop_step_ok[OF h] Cons.IH[OF rest] h by simp
qed

lemma dynamic_loop_all:
  "dynamic_loop outcome swps results attempted =
     (attempted @ swps,
      results @ List.map_filter
         (\<lambda>s. case dynamic_executeSwap outcome s of Inl e \<Rightarrow> None | Inr r \<Rightarrow> Some r) swps)"
  by (induction swps arbitrary: results attempted)
     (auto simp: List.map_filter_simps split: sum.splits)

lemma world_2_results:
  "swap_result world_2_unconfirmed (swap_10 ''A'' ''B'') = Inr ''0xA''"
  "swap_result world_2_unconfirmed (swap_10 ''B'' ''C'')
     = Inl ''Transaction 0xB not confirmed within 60000ms''"
  "p_ethAddress portfolio_with_keys \<noteq> []"
  "p_pkpPublicKey portfolio_with_keys = Some ''0xkey''"
  "''0xkey'' \<noteq> []"
  by code_simp+

lemma world_2_calls:
  "concat (map (swap_calls world_2_unconfirmed) [swap_10 ''A'' ''B'', swap_10 ''B'' ''C'']) =
     [Approval (swap_10 ''A'' ''B''), Submit (swap_10 ''A'' ''B''), Wait ''0xA'',
      Approval (swap_10 ''B'' ''C''), Submit (swap_10 ''B'' ''C''), Wait ''0xB'']"
  "rebalancing_stopped (length [swap_10 ''A'' ''B''] + 1) ''Transaction 0xB not confirmed within 60000ms''
     = ''Rebalancing stopped at swap 2: Transaction 0xB not confirmed within 60000ms''"
  by code_simp+

text \<open>
  C2, as the code has it. \<open>executeRebalanceSwaps\<close> of the monitoring job runs the swaps
  one after the other in list order. When a swap fails (in \<open>executeSwap\<close> or in the wait
  for its confirmation) after the swaps before it succeeded, the executor throws
  "Rebalancing stopped at swap n: reason" with the number of the failed swap and the
  reason; the calls it has made are those of the swaps up to the failed one, and none
  for a later swap; no transaction hash is returned. The list of hashes is returned only
  when every swap succeeded. \<open>DynamicSwapService.executeRebalanceSwaps\<close> attempts every
  swap, whatever fails, and returns the results of those that succeeded.
\<close>

theorem abort_on_first_failure:
  assumes "p_ethAddress p \<noteq> []" and "p_pkpPublicKey p = Some key" and "key \<noteq> []"
  shows "((\<forall>s\<in>set pre. \<exists>h. swap_result world s = Inr h) \<and>
          swap_result world failing = Inl msg \<longrightarrow>
            executeRebalanceSwaps world (Some p) portfolioId (pre @ failing # post) =
              (concat (map (swap_calls world) (pre @ [failing])),
               Inl (rebalancing_stopped (length pre + 1) msg))) \<and>
         ((\<forall>s\<in>set swps. \<exists>h. swap_result world s = Inr h) \<longrightarrow>
            executeRebalanceSwaps world (Some p) portfolioId swps =
              (concat (map (swap_calls world) swps),
               Inr (map (\<lambda>s. projr (swap_result world s)) swps))) \<and>
         dynamic_executeRebalanceSwaps outcome dswps =
           (dswps,
            List.map_filter
              (\<lambda>s. case dynamic_executeSwap outcome s of Inl e \<Rightarrow> None | Inr r \<Rightarrow> Some r) dswps)"
proof (intro conjI impI)
  have e: "executeRebalanceSwaps world (Some p) portfolioId xs = swaps_loop world 0 xs [] []" for xs
    using assms by (simp add: executeRebalanceSwaps_def)
  show "executeRebalanceSwaps world (Some p) portfolioId (pre @ failing # post) =
              (concat (map (swap_calls world) (pre @ [failing])),
               Inl (rebalancing_stopped (length pre + 1) msg))"
    if "(\<forall>s\<in>set pre. \<exists>h. swap_result world s = Inr h) \<and> swap_result world failing = Inl msg"
    using that swaps_loop_abort[of pre world failing msg 0 post "[]" "[]"] e by simp
  show "executeRebalanceSwaps world (Some p) portfolioId swps =
              (concat (map (swap_calls world) swps),
               Inr (map (\<lambda>s. projr (swap_result world s)) swps))"
    if "\<forall>s\<in>set swps. \<exists>h. swap_result world s = Inr h"
    using swaps_loop_all_ok[OF that, of 0 "[]" "[]"] e by simp
  show "dynamic_executeRebalanceSwaps outcome dswps =
           (dswps,
            List.map_filter
              (\<lambda>s. case dynamic_executeSwap outcome s of Inl e \<Rightarrow> None | Inr r \<Rightarrow> Some r) dswps)"
    by (simp add: dynamic_executeRebalanceSwaps_def dynamic_loop_all)
qed

text \<open>
  Three swaps, the second of which is not confirmed: the executor throws for swap 2 with
  the reason of the wait, and the third swap is never approved or submitted.
\<close>

theorem abort_on_first_failure_witness:
  "swap_result world_2_unconfirmed (swap_10 ''A'' ''B'') = Inr ''0xA'' \<and>
   swap_result world_2_unconfirmed (swap_10 ''B'' ''C'')
     = Inl ''Transaction 0xB not confirmed within 60000ms'' \<and>
   executeRebalanceSwaps world_2_unconfirmed (Some portfolio_with_keys) ''p1''
       [swap_10 ''A'' ''B'', swap_10 ''B'' ''C'', swap_10 ''C'' ''D''] =
     ([Approval (swap_10 ''A'' ''B''), Submit (swap_10 ''A'' ''B''), Wait ''0xA'',
       Approval (swap_10 ''B'' ''C''), Submit (swap_10 ''B'' ''C''), Wait ''0xB''],
      Inl ''Rebalancing stopped at swap 2: Transaction 0xB not confirmed within 60000ms'')"
proof -
  have ok: "\<forall>s\<in>set [swap_10 ''A'' ''B'']. \<exists>h. swap_result world_2_unconfirmed s = Inr h"
    using world_2_results(1) by simp
  from abort_on_first_failure[OF world_2_results(3,4,5),
      of "[swap_10 ''A'' ''B'']" world_2_unconfirmed "swap_10 ''B'' ''C''"
         "''Transaction 0xB not confirmed within 60000ms''" "''p1''" "[swap_10 ''C'' ''D'']"]
    ok world_2_results(2)
  have "executeRebalanceSwaps world_2_unconfirmed (Some portfolio_with_keys) ''p1''
          ([swap_10 ''A'' ''B''] @ swap_10 ''B'' ''C'' # [swap_10 ''C'' ''D'']) =
        (concat (map (swap_calls world_2_unconfirmed) ([swap_10 ''A'' ''B''] @ [swap_10 ''B'' ''C''])),
         Inl (rebalancing_stopped (length [swap_10 ''A'' ''B''] + 1)
                ''Transaction 0xB not confirmed within 60000ms''))"
    by blast
  then show ?thesis using world_2_results(1,2) world_2_calls by simp
qed

text \<open>
  In that run the executor returns no hash, not the one confirmed hash \<open>0xA\<close>; and the
  executor of \<open>DynamicSwapService\<close>, when its second swap throws, still attempts the
  third and returns the hashes of the first and the third.
\<close>

theorem abort_on_first_failure_counterexample:
  "snd (executeRebalanceSwaps world_2_unconfirmed (Some portfolio_with_keys) ''p1'' three_swaps)
     = Inl ''Rebalancing stopped at swap 2: Transaction 0xB not confirmed within 60000ms'' \<and>
   snd (executeRebalanceSwaps world_2_unconfirmed (Some portfolio_with_keys) ''p1'' three_swaps)
     \<noteq> Inr [''0xA''] \<and>
   dynamic_executeSwap outcome_2_fails (three_dynamic_swaps ! 1) = Inl ''Execution Uniswap echouee'' \<and>
   fst (dynamic_executeRebalanceSwaps outcome_2_fails three_dynamic_swaps) = three_dynamic_swaps \<and>
   map txHash (snd (dynamic_executeRebalanceSwaps outcome_2_fails three_dynamic_swaps))
     = [''0xA'', ''0xC'']"
  by code_simp

subsection \<open>C8: what a failed cycle leaves behind\<close>











subsection \<open>C9: the sum of the targets at creation and update\<close>









text \<open>
  Nor do the targets 150% and -50%, which sum to 1, pass: the schema refuses a target
  outside the interval from 0 to 1.
\<close>

lemma target_out_of_range_rejected:
  "\<bar>total_target (cp_allocations (body_with (3 / 2) (- 1 / 2))) - 1\<bar> < 1 / 1000 \<and>
   \<not> allocations_schema (cp_allocations (body_with (3 / 2) (- 1 / 2))) \<and>
   handleCreatePortfolioRoute api_world ''0xABC'' (body_with (3 / 2) (- 1 / 2)) empty_db
     = (empty_db, Inl ZodError)"
  by code_simp

end
